theory Spec2Isabelle
  imports Main "HOL-Library.Word"
begin

section \<open>Data model\<close>

text \<open>
  The package builds a pgx connection pool from functional options. Go's \<open>int\<close> (on a
  64-bit target) and \<open>time.Duration\<close> are 64-bit two's complement integers, the pool sizes
  of \<open>pgxpool.Config\<close> are \<open>int32\<close>; comparisons with zero are signed.
\<close>

type_synonym go_int = "64 word"
type_synonym Duration = "64 word"
type_synonym int32 = "32 word"

text \<open>\<open>net.IP\<close> is a byte slice.\<close>

type_synonym IP = "8 word list"

text \<open>
  An error value is either built in this package by \<open>fmt.Errorf\<close> (it is its message), or
  it comes out of a library (\<open>net\<close>, \<open>pgx\<close>, \<open>pgxpool\<close>, \<open>tracelog\<close>); a library error is
  kept apart from the package's own and carries its message for \<open>Error()\<close>.
\<close>

datatype error = Errorf string | Foreign string

fun Error :: "error \<Rightarrow> string" where
  "Error (Errorf msg) = msg"
| "Error (Foreign msg) = msg"

text \<open>
  \<open>tracelog.TraceLog\<close> of pgx, the tracer a connection configuration can carry: a logger
  adapter (of \<open>pgx-zap\<close>, \<open>pgx-zerolog\<close> or \<open>pgx-logrus\<close>, wrapping a logger handle that is
  identified by a number) and a minimum level.
\<close>

datatype tracelog_Logger =
    zap_adapter_NewLogger nat
  | zero_adapter_NewLogger nat
  | logrus_adapter_NewLogger nat

type_synonym LogLevel = int

record TraceLog =
  Logger :: tracelog_Logger
  LogLevel :: LogLevel

text \<open>
  \<open>type options struct\<close>: twelve fields, every one a pointer, nil (\<open>None\<close>) until an option
  sets it. No code writes through a stored pointer afterwards, so a pointer is modelled by
  the value it points to. The struct has no field for a logger.
\<close>

record options =
  host :: "IP option"
  port :: "go_int option"
  database :: "string option"
  user :: "string option"
  pass :: "string option"
  sslmode :: "string option"
  maxconns :: "go_int option"
  minconns :: "go_int option"
  maxconnlifetime :: "Duration option"
  maxconnidletime :: "Duration option"
  healthcheckperiod :: "Duration option"
  maxconnlifetimejitter :: "Duration option"

text \<open>\<open>var opt options\<close>: the zero value of the struct.\<close>

definition zero_options :: options where
  "zero_options = \<lparr>host = None, port = None, database = None, user = None, pass = None,
     sslmode = None, maxconns = None, minconns = None, maxconnlifetime = None,
     maxconnidletime = None, healthcheckperiod = None, maxconnlifetimejitter = None\<rparr>"

text \<open>
  \<open>type Option func(option *options) error\<close>: an option receives the record and returns
  the error (\<open>None\<close> for nil) together with the record as it left it.
\<close>

type_synonym Option = "options \<Rightarrow> error option \<times> options"

text \<open>
  A physical connection, as far as the post-connect hook uses it: what its \<open>Ping\<close> returns.
\<close>

record Conn =
  Ping :: "error option"

text \<open>
  \<open>pgxpool.Config\<close>: the fields \<open>New\<close> writes, the tracer of its \<open>ConnConfig\<close>, and the
  connection string it was parsed from.
\<close>

record Config =
  ConnString :: string
  MaxConns :: int32
  MinConns :: int32
  MaxConnLifetime :: Duration
  MaxConnIdleTime :: Duration
  HealthCheckPeriod :: Duration
  MaxConnLifetimeJitter :: Duration
  Tracer :: "TraceLog option"
  AfterConnect :: "(Conn \<Rightarrow> error option) option"

text \<open>\<open>url.URL\<close>, the fields \<open>New\<close> fills; \<open>User\<close> is \<open>url.UserPassword(user, pass)\<close>.\<close>

record URL =
  Scheme :: string
  Host :: string
  Path :: string
  User :: "string \<times> string"
  RawQuery :: string

type_synonym Values = "string \<rightharpoonup> string list"

type_synonym pgxpool_Pool = nat

text \<open>\<open>type Pool struct { *pgxpool.Pool }\<close>\<close>

datatype Pool = Pool pgxpool_Pool

text \<open>
  The library functions the package calls are parameters of the model: \<open>net.IP\<close>'s
  \<open>UnmarshalText\<close> and \<open>String\<close>, \<open>url.Values.Encode\<close>, \<open>url.URL.String\<close>,
  \<open>pgxpool.ParseConfig\<close> and \<open>pgxpool.NewWithConfig\<close> (the call that reaches the network).
\<close>

record ext =
  IP_UnmarshalText :: "string \<Rightarrow> error + IP"
  IP_String :: "IP \<Rightarrow> string"
  Values_Encode :: "Values \<Rightarrow> string"
  URL_String :: "URL \<Rightarrow> string"
  ParseConfig :: "string \<Rightarrow> error + Config"
  NewWithConfig :: "Config \<Rightarrow> error + pgxpool_Pool"

section \<open>Constants\<close>

definition postgres :: string where "postgres = ''postgres''"
definition default_port :: go_int where "default_port = 5432"
definition default_host :: string where "default_host = ''127.0.0.1''"
definition default_user :: string where "default_user = ''postgres''"
definition default_database :: string where "default_database = ''postgres''"
definition disable_ssl_mode :: string where "disable_ssl_mode = ''disable''"

section \<open>The options\<close>

text \<open>
  Each constructor returns a closure; the definitions below are the closures applied to
  the record. A closure that replaces a zero argument by the default overwrites its own
  captured parameter and stores that: a second application finds the parameter already
  replaced and stores the same value, so the closure is a function of the record alone.
  In \<open>WithPort\<close> the switch tests zero first, then the sign.
\<close>

definition WithHost :: "ext \<Rightarrow> string \<Rightarrow> Option" where
  "WithHost e h options =
     (let h = (if h = [] then default_host else h) in
      case IP_UnmarshalText e h of
        Inl err \<Rightarrow> (Some err, options)
      | Inr ip \<Rightarrow> (None, options\<lparr>host := Some ip\<rparr>))"

definition WithPort :: "go_int \<Rightarrow> Option" where
  "WithPort p options =
     (if p = 0 then (None, options\<lparr>port := Some default_port\<rparr>)
      else if p <s 0 then (Some (Errorf ''port cannot be less than zero''), options)
      else (None, options\<lparr>port := Some p\<rparr>))"

definition WithDatabase :: "string \<Rightarrow> Option" where
  "WithDatabase d options =
     (let d = (if d = [] then default_database else d) in
      (None, options\<lparr>database := Some d\<rparr>))"

definition WithUser :: "string \<Rightarrow> Option" where
  "WithUser u options =
     (let u = (if u = [] then default_user else u) in
      (None, options\<lparr>user := Some u\<rparr>))"

definition WithPass :: "string \<Rightarrow> Option" where
  "WithPass p options = (None, options\<lparr>pass := Some p\<rparr>)"

definition WithSSLMode :: "string \<Rightarrow> Option" where
  "WithSSLMode mode options =
     (let mode = (if mode = [] then disable_ssl_mode else mode) in
      (None, options\<lparr>sslmode := Some mode\<rparr>))"

definition WithMaxConns :: "go_int \<Rightarrow> Option" where
  "WithMaxConns conns options =
     (if conns <s 0 then (Some (Errorf ''max connections cannot be less than zero''), options)
      else (None, options\<lparr>maxconns := Some conns\<rparr>))"

definition WithMinConns :: "go_int \<Rightarrow> Option" where
  "WithMinConns conns options =
     (if conns <s 0 then (Some (Errorf ''min connections cannot be less than zero''), options)
      else (None, options\<lparr>minconns := Some conns\<rparr>))"

definition WithMaxConnLifeTime :: "Duration \<Rightarrow> Option" where
  "WithMaxConnLifeTime lifetime options =
     (if lifetime <s 0
      then (Some (Errorf ''max connection life time cannot be less than zero''), options)
      else (None, options\<lparr>maxconnlifetime := Some lifetime\<rparr>))"

definition WithMaxConnIdleTime :: "Duration \<Rightarrow> Option" where
  "WithMaxConnIdleTime idletime options =
     (if idletime <s 0
      then (Some (Errorf ''max connection idle time cannot be less than zero''), options)
      else (None, options\<lparr>maxconnidletime := Some idletime\<rparr>))"

definition WithHealthCheckPeriod :: "Duration \<Rightarrow> Option" where
  "WithHealthCheckPeriod period options =
     (if period \<le>s 0
      then (Some (Errorf ''health check period cannot be less than or equal to zero''), options)
      else (None, options\<lparr>healthcheckperiod := Some period\<rparr>))"

definition WithMaxConnLifeTimeJitter :: "Duration \<Rightarrow> Option" where
  "WithMaxConnLifeTimeJitter jitter options =
     (if jitter <s 0
      then (Some (Errorf ''max connection life time jitter cannot be less than zero''), options)
      else (None, options\<lparr>maxconnlifetimejitter := Some jitter\<rparr>))"

text \<open>
  The options of the logger files (\<open>WithZapLogger\<close>, \<open>WithZeroLogger\<close>, \<open>WithLogrusLogger\<close>)
  assign to a field \<open>tracelogger\<close>, in \<open>logger.go\<close> to a field \<open>logger\<close>, that the struct
  above does not have: they are not functions on this record, and no \<open>Option\<close> list given to
  \<open>New\<close> contains them.
\<close>

section \<open>The builder\<close>

text \<open>\<open>%d\<close> of \<open>fmt.Sprintf\<close> on an \<open>int\<close>: the signed value in decimal.\<close>

fun digits :: "nat \<Rightarrow> string" where
  "digits n =
     (if n < 10 then [''0123456789'' ! n]
      else digits (n div 10) @ [''0123456789'' ! (n mod 10)])"

definition Sprintf_d :: "go_int \<Rightarrow> string" where
  "Sprintf_d i = (if sint i < 0 then CHR ''-'' # digits (nat (- sint i)) else digits (nat (sint i)))"

text \<open>
  The loop of \<open>New\<close> over \<open>opts\<close>: each option is applied to the record the previous one
  left; the first error ends the build.
\<close>

fun New_options :: "Option list \<Rightarrow> options \<Rightarrow> error + options" where
  "New_options [] opt = Inr opt"
| "New_options (option # opts) opt =
     (case option opt of
        (Some err, _) \<Rightarrow> Inl err
      | (None, opt') \<Rightarrow> New_options opts opt')"

text \<open>
  From the host default to the \<open>url.URL\<close> literal: the unset fields are resolved and the
  descriptor is assembled. \<open>sslmode\<close> enters the query only when the field is set.
\<close>

definition New_url :: "ext \<Rightarrow> options \<Rightarrow> error + URL" where
  "New_url e opt =
     (case (case host opt of
              None \<Rightarrow> IP_UnmarshalText e default_host
            | Some ip \<Rightarrow> Inr ip) of
        Inl err \<Rightarrow> Inl err
      | Inr ip \<Rightarrow>
          (let port = (case port opt of None \<Rightarrow> default_port | Some p \<Rightarrow> p);
               database = (case database opt of None \<Rightarrow> default_database | Some d \<Rightarrow> d);
               user = (case user opt of None \<Rightarrow> default_user | Some u \<Rightarrow> u);
               pass = (case pass opt of None \<Rightarrow> [] | Some p \<Rightarrow> p);
               val = (case sslmode opt of
                        None \<Rightarrow> Map.empty
                      | Some m \<Rightarrow> [''sslmode'' \<mapsto> [m]])
           in Inr \<lparr>Scheme = postgres,
                   Host = IP_String e ip @ '':'' @ Sprintf_d port,
                   Path = database,
                   User = (user, pass),
                   RawQuery = Values_Encode e val\<rparr>))"

text \<open>
  The overlay of the pool settings on the parsed configuration, one conditional assignment
  after the other; \<open>int32(...)\<close> keeps the low 32 bits.
\<close>

definition New_overlay :: "options \<Rightarrow> Config \<Rightarrow> Config" where
  "New_overlay opt conCfg =
     (let conCfg = (case maxconns opt of
                      Some v \<Rightarrow> if v \<noteq> 0 then conCfg\<lparr>MaxConns := ucast v\<rparr> else conCfg
                    | None \<Rightarrow> conCfg);
          conCfg = (case minconns opt of
                      Some v \<Rightarrow> if v \<noteq> 0 then conCfg\<lparr>MinConns := ucast v\<rparr> else conCfg
                    | None \<Rightarrow> conCfg);
          conCfg = (case maxconnlifetime opt of
                      Some v \<Rightarrow> if v \<noteq> 0 then conCfg\<lparr>MaxConnLifetime := v\<rparr> else conCfg
                    | None \<Rightarrow> conCfg);
          conCfg = (case maxconnidletime opt of
                      Some v \<Rightarrow> conCfg\<lparr>MaxConnIdleTime := v\<rparr>
                    | None \<Rightarrow> conCfg);
          conCfg = (case healthcheckperiod opt of
                      Some v \<Rightarrow> conCfg\<lparr>HealthCheckPeriod := v\<rparr>
                    | None \<Rightarrow> conCfg);
          conCfg = (case maxconnlifetimejitter opt of
                      Some v \<Rightarrow> conCfg\<lparr>MaxConnLifetimeJitter := v\<rparr>
                    | None \<Rightarrow> conCfg)
      in conCfg)"

text \<open>The closure assigned to \<open>conCfg.AfterConnect\<close>.\<close>

definition New_AfterConnect :: "Conn \<Rightarrow> error option" where
  "New_AfterConnect conn =
     (case Ping conn of
        Some err \<Rightarrow> Some (Errorf (''ping after connect: '' @ Error err))
      | None \<Rightarrow> None)"

text \<open>
  \<open>New\<close>: the result (\<open>Inl\<close> stands for a nil pool with the error), and next to it the
  configurations handed to \<open>pgxpool.NewWithConfig\<close>, in order: the list is empty when the
  build returned before the constructor, the only call of \<open>New\<close> that opens connections.
  The context is passed through to the constructor and is not part of the model.
\<close>

definition New :: "ext \<Rightarrow> Option list \<Rightarrow> (error + Pool) \<times> Config list" where
  "New e opts =
     (case New_options opts zero_options of
        Inl err \<Rightarrow> (Inl err, [])
      | Inr opt \<Rightarrow>
          (case New_url e opt of
             Inl err \<Rightarrow> (Inl err, [])
           | Inr url \<Rightarrow>
               (case ParseConfig e (URL_String e url) of
                  Inl err \<Rightarrow> (Inl err, [])
                | Inr conCfg \<Rightarrow>
                    (let conCfg = (New_overlay opt conCfg)\<lparr>AfterConnect := Some New_AfterConnect\<rparr>
                     in (case NewWithConfig e conCfg of
                           Inl err \<Rightarrow> (Inl err, [conCfg])
                         | Inr pool \<Rightarrow> (Inr (Pool pool), [conCfg]))))))"

section \<open>A sample environment\<close>

text \<open>
  An instance of the library parameters for evaluating the builder on concrete inputs: the
  loopback literal and one more address parse, the parsed configuration starts from the pool's built-in settings (four connections, one
  hour of lifetime, thirty minutes of idle time, one minute between health checks, in
  nanoseconds, no tracer), and the constructor hands out pool number 1.
\<close>

definition sample_Config :: "string \<Rightarrow> Config" where
  "sample_Config s =
     \<lparr>ConnString = s, MaxConns = 4, MinConns = 0,
      MaxConnLifetime = 3600000000000, MaxConnIdleTime = 1800000000000,
      HealthCheckPeriod = 60000000000, MaxConnLifetimeJitter = 0,
      Tracer = None, AfterConnect = None\<rparr>"

definition sample_ext :: ext where
  "sample_ext =
     \<lparr>IP_UnmarshalText = (\<lambda>s.
          if s = [] then Inr []
          else if s = ''127.0.0.1'' then Inr [127, 0, 0, 1]
          else if s = ''10.0.0.7'' then Inr [10, 0, 0, 7]
          else Inl (Foreign (''invalid IP address: '' @ s))),
      IP_String = (\<lambda>ip.
          if ip = [127, 0, 0, 1] then ''127.0.0.1''
          else if ip = [10, 0, 0, 7] then ''10.0.0.7'' else ''<nil>''),
      Values_Encode = (\<lambda>v.
          case v ''sslmode'' of None \<Rightarrow> [] | Some ms \<Rightarrow> ''sslmode='' @ concat ms),
      URL_String = (\<lambda>u.
          Scheme u @ ''://'' @ fst (User u) @ '':'' @ snd (User u) @ ''@'' @ Host u @ ''/'' @ Path u
            @ (if RawQuery u = [] then [] else ''?'' @ RawQuery u)),
      ParseConfig = (\<lambda>s. Inr (sample_Config s)),
      NewWithConfig = (\<lambda>c. Inr 1)\<rparr>"

section \<open>The option loop and the stages of the build\<close>

lemma New_options_append:
  "New_options (xs @ ys) opt =
     (case New_options xs opt of Inl err \<Rightarrow> Inl err | Inr mid \<Rightarrow> New_options ys mid)"
  by (induction xs arbitrary: opt) (auto split: prod.splits option.splits)

lemma New_options_frame:
  assumes "\<forall>p\<in>set post. \<forall>a b. p a = (None, b) \<longrightarrow> f b = f a"
    and "New_options post a = Inr b"
  shows "f b = f a"
  using assms
proof (induction post arbitrary: a)
  case Nil
  then show ?case by simp
next
  case (Cons p post)
  from Cons.prems(2) obtain mid
    where step: "p a = (None, mid)" and rest: "New_options post mid = Inr b"
    by (auto split: prod.splits option.splits)
  from Cons.prems(1) step have "f mid = f a" by simp
  moreover from Cons.IH [of mid] Cons.prems(1) rest have "f b = f mid" by simp
  ultimately show ?case by simp
qed

lemma New_options_failing:
  assumes "\<forall>a. fst (opn a) \<noteq> None"
  shows "\<exists>err. New_options (pre @ opn # post) opt = Inl err"
proof (cases "New_options pre opt")
  case (Inl err)
  then show ?thesis by (simp add: New_options_append)
next
  case (Inr mid)
  from assms obtain err x where "opn mid = (Some err, x)"
    by (metis option.exhaust prod.collapse)
  with Inr show ?thesis by (simp add: New_options_append)
qed

lemma New_failing:
  assumes "New_options opts zero_options = Inl err"
  shows "New e opts = (Inl err, [])"
  using assms by (simp add: New_def)

lemma New_reaches_constructor:
  assumes "New_options opts zero_options = Inr opt"
    and "New_url e opt = Inr url"
    and "ParseConfig e (URL_String e url) = Inr conCfg"
  shows "New e opts =
           (case NewWithConfig e ((New_overlay opt conCfg)\<lparr>AfterConnect := Some New_AfterConnect\<rparr>) of
              Inl err \<Rightarrow> Inl err
            | Inr pool \<Rightarrow> Inr (Pool pool),
            [(New_overlay opt conCfg)\<lparr>AfterConnect := Some New_AfterConnect\<rparr>])"
  using assms by (simp add: New_def Let_def split: sum.splits)

lemma New_passed_config:
  assumes "snd (New e opts) = [cfg]"
  obtains opt url conCfg where "New_options opts zero_options = Inr opt"
    and "New_url e opt = Inr url"
    and "ParseConfig e (URL_String e url) = Inr conCfg"
    and "cfg = (New_overlay opt conCfg)\<lparr>AfterConnect := Some New_AfterConnect\<rparr>"
  using assms by (auto simp add: New_def Let_def split: sum.splits)

lemma New_overlay_fields:
  "MaxConns (New_overlay opt conCfg) =
     (case maxconns opt of
        Some v \<Rightarrow> if v \<noteq> 0 then ucast v else MaxConns conCfg
      | None \<Rightarrow> MaxConns conCfg)"
  "MinConns (New_overlay opt conCfg) =
     (case minconns opt of
        Some v \<Rightarrow> if v \<noteq> 0 then ucast v else MinConns conCfg
      | None \<Rightarrow> MinConns conCfg)"
  "MaxConnLifetime (New_overlay opt conCfg) =
     (case maxconnlifetime opt of
        Some v \<Rightarrow> if v \<noteq> 0 then v else MaxConnLifetime conCfg
      | None \<Rightarrow> MaxConnLifetime conCfg)"
  "MaxConnIdleTime (New_overlay opt conCfg) =
     (case maxconnidletime opt of Some v \<Rightarrow> v | None \<Rightarrow> MaxConnIdleTime conCfg)"
  "HealthCheckPeriod (New_overlay opt conCfg) =
     (case healthcheckperiod opt of Some v \<Rightarrow> v | None \<Rightarrow> HealthCheckPeriod conCfg)"
  "MaxConnLifetimeJitter (New_overlay opt conCfg) =
     (case maxconnlifetimejitter opt of Some v \<Rightarrow> v | None \<Rightarrow> MaxConnLifetimeJitter conCfg)"
  "Tracer (New_overlay opt conCfg) = Tracer conCfg"
  "ConnString (New_overlay opt conCfg) = ConnString conCfg"
  by (simp_all add: New_overlay_def Let_def split: option.splits)

lemma Sprintf_d_default_port: "Sprintf_d default_port = ''5432''"
  by (simp add: default_port_def Sprintf_d_def)

lemma sample_New:
  assumes "New_options opts zero_options = Inr opt"
    and "New_url sample_ext opt = Inr url"
  shows "New sample_ext opts =
           (Inr (Pool 1),
            [(New_overlay opt (sample_Config (URL_String sample_ext url)))
               \<lparr>AfterConnect := Some New_AfterConnect\<rparr>])"
proof -
  have "ParseConfig sample_ext (URL_String sample_ext url)
          = Inr (sample_Config (URL_String sample_ext url))"
    by (simp add: sample_ext_def)
  from New_reaches_constructor [OF assms this] show ?thesis
    by (simp add: sample_ext_def)
qed

lemma sample_url_zero:
  "New_url sample_ext zero_options
     = Inr \<lparr>Scheme = ''postgres'', Host = ''127.0.0.1:5432'', Path = ''postgres'',
            User = (''postgres'', []), RawQuery = []\<rparr>"
  by (simp add: New_url_def zero_options_def sample_ext_def default_host_def
      Sprintf_d_default_port postgres_def default_database_def default_user_def)

section \<open>Order of the options\<close>



section \<open>Building with no option\<close>

text \<open>
  C2 fails on the code. When the literal 127.0.0.1 parses to \<open>ip\<close>, \<open>New\<close> with no option
  resolves host \<open>ip\<close>, port 5432, database postgres, user postgres and the empty password,
  but the query of its descriptor is the encoding of no parameter at all: no SSL mode is
  resolved. The descriptor with SSL mode \<open>disable\<close> is the one \<open>WithSSLMode\<close> of the empty
  string or of \<open>disable\<close> gives, whose query encodes \<open>sslmode=disable\<close>. The build with no
  option hands the parsed configuration of the first descriptor to the constructor.
\<close>

theorem New_no_options_omits_sslmode:
  assumes "IP_UnmarshalText e ''127.0.0.1'' = Inr ip"
  shows "New_url e zero_options
           = Inr \<lparr>Scheme = ''postgres'', Host = IP_String e ip @ '':5432'', Path = ''postgres'',
                  User = (''postgres'', []), RawQuery = Values_Encode e Map.empty\<rparr>
       \<and> WithSSLMode [] zero_options = (None, zero_options\<lparr>sslmode := Some ''disable''\<rparr>)
       \<and> WithSSLMode ''disable'' zero_options
           = (None, zero_options\<lparr>sslmode := Some ''disable''\<rparr>)
       \<and> New_url e (zero_options\<lparr>sslmode := Some ''disable''\<rparr>)
           = Inr \<lparr>Scheme = ''postgres'', Host = IP_String e ip @ '':5432'', Path = ''postgres'',
                  User = (''postgres'', []),
                  RawQuery = Values_Encode e [''sslmode'' \<mapsto> [''disable'']]\<rparr>
       \<and> New e [] =
           (case ParseConfig e (URL_String e
                   \<lparr>Scheme = ''postgres'', Host = IP_String e ip @ '':5432'', Path = ''postgres'',
                    User = (''postgres'', []), RawQuery = Values_Encode e Map.empty\<rparr>) of
              Inl err \<Rightarrow> (Inl err, [])
            | Inr conCfg \<Rightarrow>
                (case NewWithConfig e (conCfg\<lparr>AfterConnect := Some New_AfterConnect\<rparr>) of
                   Inl err \<Rightarrow> Inl err
                 | Inr pool \<Rightarrow> Inr (Pool pool),
                 [conCfg\<lparr>AfterConnect := Some New_AfterConnect\<rparr>]))"
proof -
  have u: "New_url e zero_options
           = Inr \<lparr>Scheme = ''postgres'', Host = IP_String e ip @ '':5432'', Path = ''postgres'',
                  User = (''postgres'', []), RawQuery = Values_Encode e Map.empty\<rparr>"
    using assms
    by (simp add: New_url_def zero_options_def default_host_def Sprintf_d_default_port
        postgres_def default_database_def default_user_def)
  have u': "New_url e (zero_options\<lparr>sslmode := Some ''disable''\<rparr>)
           = Inr \<lparr>Scheme = ''postgres'', Host = IP_String e ip @ '':5432'', Path = ''postgres'',
                  User = (''postgres'', []),
                  RawQuery = Values_Encode e [''sslmode'' \<mapsto> [''disable'']]\<rparr>"
    using assms
    by (simp add: New_url_def zero_options_def default_host_def Sprintf_d_default_port
        postgres_def default_database_def default_user_def)
  have w: "WithSSLMode [] zero_options = (None, zero_options\<lparr>sslmode := Some ''disable''\<rparr>)"
    "WithSSLMode ''disable'' zero_options = (None, zero_options\<lparr>sslmode := Some ''disable''\<rparr>)"
    by (simp_all add: WithSSLMode_def disable_ssl_mode_def)
  have v: "New_overlay zero_options = (\<lambda>c. c)"
    by (rule ext) (simp add: New_overlay_def zero_options_def)
  have n: "New e [] =
           (case ParseConfig e (URL_String e
                   \<lparr>Scheme = ''postgres'', Host = IP_String e ip @ '':5432'', Path = ''postgres'',
                    User = (''postgres'', []), RawQuery = Values_Encode e Map.empty\<rparr>) of
              Inl err \<Rightarrow> (Inl err, [])
            | Inr conCfg \<Rightarrow>
                (case NewWithConfig e (conCfg\<lparr>AfterConnect := Some New_AfterConnect\<rparr>) of
                   Inl err \<Rightarrow> Inl err
                 | Inr pool \<Rightarrow> Inr (Pool pool),
                 [conCfg\<lparr>AfterConnect := Some New_AfterConnect\<rparr>]))"
    by (simp add: New_def u v Let_def split: sum.splits)
  from u u' w n show ?thesis by blast
qed

theorem New_no_options_omits_sslmode_witness:
  "IP_UnmarshalText sample_ext ''127.0.0.1'' = Inr [127, 0, 0, 1]
   \<and> New_url sample_ext zero_options
       = Inr \<lparr>Scheme = ''postgres'', Host = ''127.0.0.1:5432'', Path = ''postgres'',
              User = (''postgres'', []), RawQuery = []\<rparr>
   \<and> New_url sample_ext (zero_options\<lparr>sslmode := Some ''disable''\<rparr>)
       = Inr \<lparr>Scheme = ''postgres'', Host = ''127.0.0.1:5432'', Path = ''postgres'',
              User = (''postgres'', []), RawQuery = ''sslmode=disable''\<rparr>
   \<and> New sample_ext []
       = (Inr (Pool 1),
          [(sample_Config ''postgres://postgres:@127.0.0.1:5432/postgres'')
             \<lparr>AfterConnect := Some New_AfterConnect\<rparr>])"
proof -
  have a: "IP_UnmarshalText sample_ext ''127.0.0.1'' = Inr [127, 0, 0, 1]"
    by (simp add: sample_ext_def)
  from New_no_options_omits_sslmode [OF a] a show ?thesis
    by (simp add: sample_ext_def)
qed

section \<open>The overlay of the pool settings\<close>

text \<open>
  C3, as stated, fails for the idle time: unset, the configuration keeps the thirty minutes
  the parser gave it; set to exactly zero by \<open>WithMaxConnIdleTime(0)\<close>, the configuration
  handed to the constructor has idle time zero.
\<close>

theorem New_overlay_zero_idle_time_counterexample:
  "map MaxConnIdleTime (snd (New sample_ext [])) = [1800000000000]
   \<and> map MaxConnIdleTime (snd (New sample_ext [WithMaxConnIdleTime 0])) = [0]"
proof -
  have u: "New_url sample_ext zero_options
     = Inr \<lparr>Scheme = ''postgres'', Host = ''127.0.0.1:5432'', Path = ''postgres'',
            User = (''postgres'', []), RawQuery = []\<rparr>"
    by (simp add: New_url_def zero_options_def sample_ext_def default_host_def
        Sprintf_d_default_port postgres_def default_database_def default_user_def)
  have u': "New_url sample_ext (zero_options\<lparr>maxconnidletime := Some 0\<rparr>)
     = Inr \<lparr>Scheme = ''postgres'', Host = ''127.0.0.1:5432'', Path = ''postgres'',
            User = (''postgres'', []), RawQuery = []\<rparr>"
    by (simp add: New_url_def zero_options_def sample_ext_def default_host_def
        Sprintf_d_default_port postgres_def default_database_def default_user_def)
  have o: "New_options [] zero_options = Inr zero_options" by simp
  have o': "New_options [WithMaxConnIdleTime 0] zero_options
      = Inr (zero_options\<lparr>maxconnidletime := Some 0\<rparr>)"
    by (simp add: WithMaxConnIdleTime_def)
  show ?thesis
    by (simp add: sample_New [OF o u] sample_New [OF o' u'] New_overlay_fields)
      (simp add: zero_options_def sample_Config_def)
qed

text \<open>
  C3, amended. In the configuration \<open>New\<close> hands to the constructor, the maximum pool size,
  the minimum pool size (both converted to \<open>int32\<close>) and the maximum connection lifetime
  are the option's value when the field was set and is not zero, and the parsed
  configuration's value otherwise; the maximum idle time, the health-check period and the
  lifetime jitter are the option's value whenever the field was set, zero included, and the
  parsed configuration's value when it was not set.
\<close>

theorem New_overlay_by_field:
  assumes "snd (New e opts) = [cfg]"
  shows "\<exists>opt url conCfg.
           New_options opts zero_options = Inr opt
         \<and> New_url e opt = Inr url
         \<and> ParseConfig e (URL_String e url) = Inr conCfg
         \<and> MaxConns cfg =
             (case maxconns opt of
                Some v \<Rightarrow> if v \<noteq> 0 then ucast v else MaxConns conCfg
              | None \<Rightarrow> MaxConns conCfg)
         \<and> MinConns cfg =
             (case minconns opt of
                Some v \<Rightarrow> if v \<noteq> 0 then ucast v else MinConns conCfg
              | None \<Rightarrow> MinConns conCfg)
         \<and> MaxConnLifetime cfg =
             (case maxconnlifetime opt of
                Some v \<Rightarrow> if v \<noteq> 0 then v else MaxConnLifetime conCfg
              | None \<Rightarrow> MaxConnLifetime conCfg)
         \<and> MaxConnIdleTime cfg =
             (case maxconnidletime opt of Some v \<Rightarrow> v | None \<Rightarrow> MaxConnIdleTime conCfg)
         \<and> HealthCheckPeriod cfg =
             (case healthcheckperiod opt of Some v \<Rightarrow> v | None \<Rightarrow> HealthCheckPeriod conCfg)
         \<and> MaxConnLifetimeJitter cfg =
             (case maxconnlifetimejitter opt of
                Some v \<Rightarrow> v
              | None \<Rightarrow> MaxConnLifetimeJitter conCfg)"
proof -
  from assms obtain opt url conCfg
    where a: "New_options opts zero_options = Inr opt"
      and b: "New_url e opt = Inr url"
      and c: "ParseConfig e (URL_String e url) = Inr conCfg"
      and d: "cfg = (New_overlay opt conCfg)\<lparr>AfterConnect := Some New_AfterConnect\<rparr>"
    by (rule New_passed_config)
  from d have "MaxConns cfg = MaxConns (New_overlay opt conCfg)"
    "MinConns cfg = MinConns (New_overlay opt conCfg)"
    "MaxConnLifetime cfg = MaxConnLifetime (New_overlay opt conCfg)"
    "MaxConnIdleTime cfg = MaxConnIdleTime (New_overlay opt conCfg)"
    "HealthCheckPeriod cfg = HealthCheckPeriod (New_overlay opt conCfg)"
    "MaxConnLifetimeJitter cfg = MaxConnLifetimeJitter (New_overlay opt conCfg)"
    by simp_all
  with a b c show ?thesis
    unfolding New_overlay_fields by blast
qed

theorem New_overlay_by_field_witness:
  "snd (New sample_ext [WithMaxConns 0, WithMinConns 2, WithMaxConnIdleTime 0])
     = [(sample_Config ''postgres://postgres:@127.0.0.1:5432/postgres'')
          \<lparr>MinConns := 2, MaxConnIdleTime := 0, AfterConnect := Some New_AfterConnect\<rparr>]
   \<and> (\<exists>opt url conCfg.
         New_options [WithMaxConns 0, WithMinConns 2, WithMaxConnIdleTime 0] zero_options = Inr opt
       \<and> New_url sample_ext opt = Inr url
       \<and> ParseConfig sample_ext (URL_String sample_ext url) = Inr conCfg
       \<and> maxconns opt = Some 0 \<and> MaxConns conCfg = 4
       \<and> minconns opt = Some 2
       \<and> maxconnidletime opt = Some 0 \<and> MaxConnIdleTime conCfg = 1800000000000)"
proof -
  let ?opts = "[WithMaxConns 0, WithMinConns 2, WithMaxConnIdleTime 0]"
  let ?opt = "zero_options\<lparr>maxconns := Some 0, minconns := Some 2, maxconnidletime := Some 0\<rparr>"
  let ?cfg = "(sample_Config ''postgres://postgres:@127.0.0.1:5432/postgres'')
          \<lparr>MinConns := 2, MaxConnIdleTime := 0, AfterConnect := Some New_AfterConnect\<rparr>"
  have o: "New_options ?opts zero_options = Inr ?opt"
    by (simp add: WithMaxConns_def WithMinConns_def WithMaxConnIdleTime_def word_sless_alt)
  have u: "New_url sample_ext ?opt
     = Inr \<lparr>Scheme = ''postgres'', Host = ''127.0.0.1:5432'', Path = ''postgres'',
            User = (''postgres'', []), RawQuery = []\<rparr>"
    by (simp add: New_url_def zero_options_def sample_ext_def default_host_def
        Sprintf_d_default_port postgres_def default_database_def default_user_def)
  have s: "snd (New sample_ext ?opts) = [?cfg]"
    by (simp add: sample_New [OF o u])
      (simp add: New_overlay_def zero_options_def sample_Config_def sample_ext_def)
  from New_overlay_by_field [OF s] o s show ?thesis
    by (auto simp add: sample_ext_def sample_Config_def)
qed

section \<open>The logger binding\<close>




section \<open>Errors\<close>

text \<open>
  C5, as stated, fails for the post-connect hook: a failed ping's error is not returned as
  it is, the hook returns a new error whose message has the prefix \<open>ping after connect: \<close>.
\<close>

theorem New_AfterConnect_wraps_counterexample:
  "New_AfterConnect \<lparr>Ping = Some (Foreign ''conn closed'')\<rparr>
     = Some (Errorf ''ping after connect: conn closed'')
   \<and> New_AfterConnect \<lparr>Ping = Some (Foreign ''conn closed'')\<rparr> \<noteq> Some (Foreign ''conn closed'')"
  by (simp add: New_AfterConnect_def)

text \<open>
  C5, amended. \<open>New\<close> returns unchanged: the error of the first option that fails, the
  error of parsing the default host, the error of \<open>ParseConfig\<close>, and the error of the
  constructor. The hook \<open>New\<close> installs returns nil when the ping succeeds, and when the
  ping fails it returns a new error whose message is \<open>ping after connect: \<close> followed by the
  message of the ping's error.
\<close>

theorem New_errors_propagate:
  "(New_options pre zero_options = Inr mid \<and> opn mid = (Some err, x) \<longrightarrow>
      New e (pre @ opn # post) = (Inl err, []))
   \<and> (New_options opts zero_options = Inr opt \<and> host opt = None
        \<and> IP_UnmarshalText e default_host = Inl err \<longrightarrow>
      New e opts = (Inl err, []))
   \<and> (New_options opts zero_options = Inr opt \<and> New_url e opt = Inr url
        \<and> ParseConfig e (URL_String e url) = Inl err \<longrightarrow>
      New e opts = (Inl err, []))
   \<and> (snd (New e opts) = [cfg] \<and> NewWithConfig e cfg = Inl err \<longrightarrow>
      fst (New e opts) = Inl err)
   \<and> (snd (New e opts) = [cfg] \<longrightarrow> AfterConnect cfg = Some New_AfterConnect)
   \<and> (Ping conn = Some err \<longrightarrow>
      New_AfterConnect conn = Some (Errorf (''ping after connect: '' @ Error err)))
   \<and> (Ping conn = None \<longrightarrow> New_AfterConnect conn = None)"
proof (intro conjI impI)
  assume "New_options pre zero_options = Inr mid \<and> opn mid = (Some err, x)"
  then have "New_options (pre @ opn # post) zero_options = Inl err"
    by (simp add: New_options_append)
  then show "New e (pre @ opn # post) = (Inl err, [])" by (rule New_failing)
next
  assume "New_options opts zero_options = Inr opt \<and> host opt = None
        \<and> IP_UnmarshalText e default_host = Inl err"
  then show "New e opts = (Inl err, [])" by (simp add: New_def New_url_def)
next
  assume "New_options opts zero_options = Inr opt \<and> New_url e opt = Inr url
        \<and> ParseConfig e (URL_String e url) = Inl err"
  then show "New e opts = (Inl err, [])" by (simp add: New_def)
next
  assume h: "snd (New e opts) = [cfg] \<and> NewWithConfig e cfg = Inl err"
  then obtain opt url conCfg
    where a: "New_options opts zero_options = Inr opt"
      and b: "New_url e opt = Inr url"
      and c: "ParseConfig e (URL_String e url) = Inr conCfg"
      and d: "cfg = (New_overlay opt conCfg)\<lparr>AfterConnect := Some New_AfterConnect\<rparr>"
    by (blast elim: New_passed_config)
  from New_reaches_constructor [OF a b c] d h show "fst (New e opts) = Inl err" by simp
next
  assume "snd (New e opts) = [cfg]"
  then obtain opt conCfg
    where "cfg = (New_overlay opt conCfg)\<lparr>AfterConnect := Some New_AfterConnect\<rparr>"
    by (blast elim: New_passed_config)
  then show "AfterConnect cfg = Some New_AfterConnect" by simp
next
  assume "Ping conn = Some err"
  then show "New_AfterConnect conn = Some (Errorf (''ping after connect: '' @ Error err))"
    by (simp add: New_AfterConnect_def)
next
  assume "Ping conn = None"
  then show "New_AfterConnect conn = None" by (simp add: New_AfterConnect_def)
qed

theorem New_errors_propagate_witness:
  "New sample_ext ([WithUser ''u''] @ WithMaxConns (- 1) # [WithPass ''p''])
     = (Inl (Errorf ''max connections cannot be less than zero''), [])
   \<and> New (sample_ext\<lparr>IP_UnmarshalText := \<lambda>s. Inl (Foreign ''no address'')\<rparr>) []
     = (Inl (Foreign ''no address''), [])
   \<and> New (sample_ext\<lparr>ParseConfig := \<lambda>s. Inl (Foreign ''cannot parse'')\<rparr>) []
     = (Inl (Foreign ''cannot parse''), [])
   \<and> New (sample_ext\<lparr>NewWithConfig := \<lambda>c. Inl (Foreign ''connection refused'')\<rparr>) []
     = (Inl (Foreign ''connection refused''),
        [(sample_Config ''postgres://postgres:@127.0.0.1:5432/postgres'')
           \<lparr>AfterConnect := Some New_AfterConnect\<rparr>])
   \<and> New_AfterConnect \<lparr>Ping = Some (Foreign ''conn closed'')\<rparr>
     = Some (Errorf ''ping after connect: conn closed'')
   \<and> New_AfterConnect \<lparr>Ping = None\<rparr> = None"
proof -
  let ?e2 = "sample_ext\<lparr>IP_UnmarshalText := \<lambda>s. Inl (Foreign ''no address'')\<rparr>"
  let ?e3 = "sample_ext\<lparr>ParseConfig := \<lambda>s. Inl (Foreign ''cannot parse'')\<rparr>"
  let ?e4 = "sample_ext\<lparr>NewWithConfig := \<lambda>c. Inl (Foreign ''connection refused'')\<rparr>"
  let ?url = "\<lparr>Scheme = ''postgres'', Host = ''127.0.0.1:5432'', Path = ''postgres'',
            User = (''postgres'', []), RawQuery = []\<rparr>"
  let ?cfg = "(sample_Config ''postgres://postgres:@127.0.0.1:5432/postgres'')
           \<lparr>AfterConnect := Some New_AfterConnect\<rparr>"
  have o: "New_options [] zero_options = Inr zero_options" by simp
  have a1: "New_options [WithUser ''u''] zero_options = Inr (zero_options\<lparr>user := Some ''u''\<rparr>)
      \<and> WithMaxConns (- 1) (zero_options\<lparr>user := Some ''u''\<rparr>)
          = (Some (Errorf ''max connections cannot be less than zero''),
             zero_options\<lparr>user := Some ''u''\<rparr>)"
    by (simp add: WithUser_def WithMaxConns_def word_sless_alt)
  have a2: "New_options [] zero_options = Inr zero_options \<and> host zero_options = None
      \<and> IP_UnmarshalText ?e2 default_host = Inl (Foreign ''no address'')"
    by (simp add: zero_options_def)
  have u3: "New_url ?e3 zero_options = Inr ?url"
    by (simp add: New_url_def zero_options_def sample_ext_def default_host_def
        Sprintf_d_default_port postgres_def default_database_def default_user_def)
  have a3: "New_options [] zero_options = Inr zero_options \<and> New_url ?e3 zero_options = Inr ?url
      \<and> ParseConfig ?e3 (URL_String ?e3 ?url) = Inl (Foreign ''cannot parse'')"
    using u3 by simp
  have u4: "New_url ?e4 zero_options = Inr ?url"
    by (simp add: New_url_def zero_options_def sample_ext_def default_host_def
        Sprintf_d_default_port postgres_def default_database_def default_user_def)
  have p4: "ParseConfig ?e4 (URL_String ?e4 ?url)
      = Inr (sample_Config ''postgres://postgres:@127.0.0.1:5432/postgres'')"
    by (simp add: sample_ext_def)
  have s4: "snd (New ?e4 []) = [?cfg]"
    by (simp add: New_reaches_constructor [OF o u4 p4])
      (simp add: New_overlay_def zero_options_def)
  have a4: "snd (New ?e4 []) = [?cfg] \<and> NewWithConfig ?e4 ?cfg = Inl (Foreign ''connection refused'')"
    using s4 by simp
  have a6: "Ping \<lparr>Ping = Some (Foreign ''conn closed'')\<rparr> = Some (Foreign ''conn closed'')"
    by simp
  have a7: "Ping \<lparr>Ping = None\<rparr> = None" by simp
  from New_errors_propagate
         [of "[WithUser ''u'']" "zero_options\<lparr>user := Some ''u''\<rparr>" "WithMaxConns (- 1)"
             "Errorf ''max connections cannot be less than zero''"
             "zero_options\<lparr>user := Some ''u''\<rparr>" sample_ext "[WithPass ''p'']"] a1
  have r1: "New sample_ext ([WithUser ''u''] @ WithMaxConns (- 1) # [WithPass ''p''])
     = (Inl (Errorf ''max connections cannot be less than zero''), [])"
    by blast
  from New_errors_propagate [where e = ?e2 and opts = "[]" and opt = zero_options
      and err = "Foreign ''no address''"] a2
  have r2: "New ?e2 [] = (Inl (Foreign ''no address''), [])" by blast
  from New_errors_propagate [where e = ?e3 and opts = "[]" and opt = zero_options
      and err = "Foreign ''cannot parse''" and url = ?url] a3
  have r3: "New ?e3 [] = (Inl (Foreign ''cannot parse''), [])" by blast
  from New_errors_propagate [where e = ?e4 and opts = "[]" and cfg = ?cfg
      and err = "Foreign ''connection refused''"] a4
  have r4: "fst (New ?e4 []) = Inl (Foreign ''connection refused'')" by blast
  from New_errors_propagate [where conn = "\<lparr>Ping = Some (Foreign ''conn closed'')\<rparr>"
      and err = "Foreign ''conn closed''"] a6
  have r6: "New_AfterConnect \<lparr>Ping = Some (Foreign ''conn closed'')\<rparr>
     = Some (Errorf ''ping after connect: conn closed'')"
    by simp
  from New_errors_propagate [where conn = "\<lparr>Ping = None\<rparr>"] a7
  have r7: "New_AfterConnect \<lparr>Ping = None\<rparr> = None" by blast
  from r4 s4 have r4': "New ?e4 [] = (Inl (Foreign ''connection refused''), [?cfg])"
    by (simp add: prod_eq_iff)
  from r1 r2 r3 r4' r6 r7 show ?thesis by blast
qed

section \<open>Port, host and health-check period\<close>

text \<open>
  C6. \<open>WithPort\<close> with a negative argument returns the error "port cannot be less than
  zero" on every record, whatever the other options wrote. \<open>New\<close> with this option alone
  returns a nil pool and that error, and \<open>New\<close> with this option among any others returns
  a nil pool and an error; in both cases the pool constructor is not called.
\<close>

theorem WithPort_negative:
  assumes "p <s 0"
  shows "WithPort p opt = (Some (Errorf ''port cannot be less than zero''), opt)
       \<and> New e [WithPort p] = (Inl (Errorf ''port cannot be less than zero''), [])
       \<and> (\<exists>err. New e (pre @ WithPort p # post) = (Inl err, []))"
proof -
  from assms have nz: "p \<noteq> 0" by auto
  with assms have w: "\<And>a. WithPort p a = (Some (Errorf ''port cannot be less than zero''), a)"
    by (simp add: WithPort_def)
  then have "\<forall>a. fst (WithPort p a) \<noteq> None" by simp
  from New_options_failing [OF this, of pre post zero_options]
  obtain err where "New_options (pre @ WithPort p # post) zero_options = Inl err" ..
  then have "New e (pre @ WithPort p # post) = (Inl err, [])" by (rule New_failing)
  moreover have "New e [WithPort p] = (Inl (Errorf ''port cannot be less than zero''), [])"
    by (simp add: New_def w)
  ultimately show ?thesis using w by blast
qed

theorem WithPort_negative_witness:
  "(-1 :: go_int) <s 0
   \<and> WithPort (-1) zero_options = (Some (Errorf ''port cannot be less than zero''), zero_options)
   \<and> New sample_ext [WithPort (-1)] = (Inl (Errorf ''port cannot be less than zero''), [])
   \<and> (\<exists>err. New sample_ext ([WithUser ''a''] @ WithPort (-1) # [WithPass ''b'']) = (Inl err, []))"
proof -
  have h: "(-1 :: go_int) <s 0" by (simp add: word_sless_alt)
  from WithPort_negative [OF h, of zero_options sample_ext "[WithUser ''a'']" "[WithPass ''b'']"] h
  show ?thesis by blast
qed

text \<open>
  C7. \<open>WithPort(0)\<close> on a record with no port stores 5432, and the descriptor built from
  that record is the one built from the record without a port: its host part ends in
  \<open>:5432\<close>. The whole build with \<open>WithPort(0)\<close> alone equals the build with no option.
\<close>

theorem WithPort_zero_same_as_unset:
  "(port opt = None \<longrightarrow>
      (\<exists>opt'. WithPort 0 opt = (None, opt') \<and> port opt' = Some 5432
         \<and> New_url e opt' = New_url e opt
         \<and> (\<forall>u. New_url e opt = Inr u \<longrightarrow> (\<exists>ip. Host u = IP_String e ip @ '':5432''))))
   \<and> New e [WithPort 0] = New e []"
proof (intro conjI impI)
  have d: "Sprintf_d default_port = ''5432''" by (simp add: default_port_def Sprintf_d_def)
  assume n: "port opt = None"
  have "WithPort 0 opt = (None, opt\<lparr>port := Some default_port\<rparr>)" by (simp add: WithPort_def)
  moreover have "New_url e (opt\<lparr>port := Some default_port\<rparr>) = New_url e opt"
    using n by (simp add: New_url_def Let_def cong: sum.case_cong)
  moreover have "\<forall>u. New_url e opt = Inr u \<longrightarrow> (\<exists>ip. Host u = IP_String e ip @ '':5432'')"
    using n d by (auto simp add: New_url_def Let_def split: sum.splits option.splits)
  ultimately show "\<exists>opt'. WithPort 0 opt = (None, opt') \<and> port opt' = Some 5432
         \<and> New_url e opt' = New_url e opt
         \<and> (\<forall>u. New_url e opt = Inr u \<longrightarrow> (\<exists>ip. Host u = IP_String e ip @ '':5432''))"
    by (simp add: default_port_def)
next
  have "New_url e (zero_options\<lparr>port := Some default_port\<rparr>) = New_url e zero_options"
    by (simp add: New_url_def zero_options_def Let_def cong: sum.case_cong)
  moreover have "New_overlay (zero_options\<lparr>port := Some default_port\<rparr>) = New_overlay zero_options"
    by (rule ext) (simp add: New_overlay_def zero_options_def)
  ultimately show "New e [WithPort 0] = New e []"
    by (simp add: New_def WithPort_def Let_def cong: sum.case_cong)
qed

theorem WithPort_zero_same_as_unset_witness:
  "port zero_options = None
   \<and> WithPort 0 zero_options = (None, zero_options\<lparr>port := Some 5432\<rparr>)
   \<and> New_url sample_ext (zero_options\<lparr>port := Some 5432\<rparr>)
       = Inr \<lparr>Scheme = ''postgres'', Host = ''127.0.0.1:5432'', Path = ''postgres'',
              User = (''postgres'', []), RawQuery = []\<rparr>
   \<and> New_url sample_ext zero_options = New_url sample_ext (zero_options\<lparr>port := Some 5432\<rparr>)
   \<and> New sample_ext [WithPort 0] = New sample_ext []"
proof -
  have h: "port zero_options = None" by (simp add: zero_options_def)
  have w: "WithPort 0 zero_options = (None, zero_options\<lparr>port := Some 5432\<rparr>)"
    by (simp add: WithPort_def default_port_def)
  have d: "Sprintf_d 5432 = ''5432''" by (simp add: Sprintf_d_def)
  have u: "New_url sample_ext (zero_options\<lparr>port := Some 5432\<rparr>)
     = Inr \<lparr>Scheme = ''postgres'', Host = ''127.0.0.1:5432'', Path = ''postgres'',
            User = (''postgres'', ''''), RawQuery = ''''\<rparr>"
    by (simp add: New_url_def zero_options_def sample_ext_def default_host_def d postgres_def
        default_database_def default_user_def)
  from WithPort_zero_same_as_unset [of zero_options sample_ext] h w u
  show ?thesis by simp
qed

text \<open>
  C8. When the literal 127.0.0.1 parses to \<open>ip\<close>, \<open>WithHost\<close> of the empty string returns
  nil and sets the host to \<open>ip\<close>. \<open>WithHost\<close> of a non-empty string that \<open>UnmarshalText\<close>
  rejects returns the parse error and leaves the record as it was; \<open>New\<close> with this option
  alone returns that error, and with this option among any others it returns an error;
  the constructor is not called.
\<close>

theorem WithHost_empty_and_unparsable:
  "(IP_UnmarshalText e ''127.0.0.1'' = Inr ip \<longrightarrow>
      WithHost e [] opt = (None, opt\<lparr>host := Some ip\<rparr>))
   \<and> (h \<noteq> [] \<and> IP_UnmarshalText e h = Inl err \<longrightarrow>
        WithHost e h opt = (Some err, opt)
        \<and> New e [WithHost e h] = (Inl err, [])
        \<and> (\<exists>err'. New e (pre @ WithHost e h # post) = (Inl err', [])))"
proof (intro conjI impI)
  assume "IP_UnmarshalText e ''127.0.0.1'' = Inr ip"
  then show "WithHost e [] opt = (None, opt\<lparr>host := Some ip\<rparr>)"
    by (simp add: WithHost_def default_host_def)
next
  assume h: "h \<noteq> [] \<and> IP_UnmarshalText e h = Inl err"
  then have w: "\<And>a. WithHost e h a = (Some err, a)" by (simp add: WithHost_def)
  then show "WithHost e h opt = (Some err, opt)" .
  from w show "New e [WithHost e h] = (Inl err, [])" by (simp add: New_def)
  from w have "\<forall>a. fst (WithHost e h a) \<noteq> None" by simp
  from New_options_failing [OF this, of pre post zero_options]
  obtain err' where "New_options (pre @ WithHost e h # post) zero_options = Inl err'" ..
  then have "New e (pre @ WithHost e h # post) = (Inl err', [])" by (rule New_failing)
  then show "\<exists>err'. New e (pre @ WithHost e h # post) = (Inl err', [])" ..
qed

theorem WithHost_empty_and_unparsable_witness:
  "IP_UnmarshalText sample_ext ''127.0.0.1'' = Inr [127, 0, 0, 1]
   \<and> WithHost sample_ext [] zero_options = (None, zero_options\<lparr>host := Some [127, 0, 0, 1]\<rparr>)
   \<and> ''not-an-ip'' \<noteq> []
   \<and> IP_UnmarshalText sample_ext ''not-an-ip'' = Inl (Foreign ''invalid IP address: not-an-ip'')
   \<and> WithHost sample_ext ''not-an-ip'' zero_options
       = (Some (Foreign ''invalid IP address: not-an-ip''), zero_options)
   \<and> New sample_ext [WithHost sample_ext ''not-an-ip'']
       = (Inl (Foreign ''invalid IP address: not-an-ip''), [])"
proof -
  have a: "IP_UnmarshalText sample_ext ''127.0.0.1'' = Inr [127, 0, 0, 1]"
    by (simp add: sample_ext_def)
  have b: "''not-an-ip'' \<noteq> []
      \<and> IP_UnmarshalText sample_ext ''not-an-ip'' = Inl (Foreign ''invalid IP address: not-an-ip'')"
    by (simp add: sample_ext_def)
  from WithHost_empty_and_unparsable
         [of sample_ext "[127, 0, 0, 1]" zero_options "''not-an-ip''"
             "Foreign ''invalid IP address: not-an-ip''" "[]" "[]"] a b
  show ?thesis by simp
qed

text \<open>
  C9. \<open>WithHealthCheckPeriod\<close> returns an error for every period that is zero or negative
  and returns nil, storing the period, for every positive one. A positive period set by the
  option is handed over unchanged: for every build that reaches the constructor and in which
  no option after \<open>WithHealthCheckPeriod\<close> touches the field, whatever the options before and
  after it are, the configuration given to the constructor has exactly that health-check
  period.
\<close>

theorem WithHealthCheckPeriod_positive_only:
  "(period \<le>s 0 \<longrightarrow>
      WithHealthCheckPeriod period opt
        = (Some (Errorf ''health check period cannot be less than or equal to zero''), opt))
   \<and> (0 <s period \<longrightarrow>
        WithHealthCheckPeriod period opt = (None, opt\<lparr>healthcheckperiod := Some period\<rparr>))
   \<and> (0 <s period
        \<and> (\<forall>p\<in>set post. \<forall>a b. p a = (None, b) \<longrightarrow> healthcheckperiod b = healthcheckperiod a)
        \<and> snd (New e (pre @ WithHealthCheckPeriod period # post)) = [cfg] \<longrightarrow>
        HealthCheckPeriod cfg = period)"
proof (intro conjI impI)
  assume "period \<le>s 0"
  then show "WithHealthCheckPeriod period opt
        = (Some (Errorf ''health check period cannot be less than or equal to zero''), opt)"
    by (simp add: WithHealthCheckPeriod_def)
next
  assume "0 <s period"
  then show "WithHealthCheckPeriod period opt = (None, opt\<lparr>healthcheckperiod := Some period\<rparr>)"
    by (simp add: WithHealthCheckPeriod_def signed.not_le)
next
  assume h: "0 <s period
        \<and> (\<forall>p\<in>set post. \<forall>a b. p a = (None, b) \<longrightarrow> healthcheckperiod b = healthcheckperiod a)
        \<and> snd (New e (pre @ WithHealthCheckPeriod period # post)) = [cfg]"
  then have w: "\<And>a. WithHealthCheckPeriod period a = (None, a\<lparr>healthcheckperiod := Some period\<rparr>)"
    by (simp add: WithHealthCheckPeriod_def signed.not_le)
  from h obtain opt' conCfg
    where o: "New_options (pre @ WithHealthCheckPeriod period # post) zero_options = Inr opt'"
      and c: "cfg = (New_overlay opt' conCfg)\<lparr>AfterConnect := Some New_AfterConnect\<rparr>"
    by (blast elim: New_passed_config)
  from o w obtain mid
    where r: "New_options post (mid\<lparr>healthcheckperiod := Some period\<rparr>) = Inr opt'"
    by (auto simp add: New_options_append split: sum.splits)
  from h have "\<forall>p\<in>set post. \<forall>a b. p a = (None, b) \<longrightarrow> healthcheckperiod b = healthcheckperiod a"
    by blast
  from New_options_frame [OF this r] have "healthcheckperiod opt' = Some period" by simp
  with c show "HealthCheckPeriod cfg = period"
    by (simp add: New_overlay_fields)
qed

theorem WithHealthCheckPeriod_positive_only_witness:
  "(0 :: Duration) \<le>s 0
   \<and> WithHealthCheckPeriod 0 zero_options
       = (Some (Errorf ''health check period cannot be less than or equal to zero''),
          zero_options)
   \<and> (0 :: Duration) <s 1000000000
   \<and> WithHealthCheckPeriod 1000000000 zero_options
       = (None, zero_options\<lparr>healthcheckperiod := Some 1000000000\<rparr>)
   \<and> map HealthCheckPeriod
         (snd (New sample_ext
            ([WithHealthCheckPeriod 5000000000] @ WithHealthCheckPeriod 1000000000
               # [WithUser ''u'', WithMaxConnIdleTime 0])))
       = [1000000000]"
proof -
  let ?pre = "[WithHealthCheckPeriod 5000000000]"
  let ?post = "[WithUser ''u'', WithMaxConnIdleTime 0]"
  let ?opt = "zero_options\<lparr>healthcheckperiod := Some 1000000000, user := Some ''u'',
                maxconnidletime := Some 0\<rparr>"
  have a: "(0 :: Duration) \<le>s 0" by simp
  have b: "(0 :: Duration) <s 1000000000" by (simp add: word_sless_alt)
  have f: "\<forall>p\<in>set ?post. \<forall>a b. p a = (None, b) \<longrightarrow> healthcheckperiod b = healthcheckperiod a"
    by (auto simp add: WithUser_def WithMaxConnIdleTime_def split: if_splits)
  have o: "New_options (?pre @ WithHealthCheckPeriod 1000000000 # ?post) zero_options = Inr ?opt"
    by (simp add: WithUser_def WithHealthCheckPeriod_def WithMaxConnIdleTime_def word_sle_eq
        zero_options_def)
  have u: "New_url sample_ext ?opt
     = Inr \<lparr>Scheme = ''postgres'', Host = ''127.0.0.1:5432'', Path = ''postgres'',
            User = (''u'', []), RawQuery = []\<rparr>"
    by (simp add: New_url_def zero_options_def sample_ext_def default_host_def
        Sprintf_d_default_port postgres_def default_database_def default_user_def)
  obtain cfg
    where s: "snd (New sample_ext (?pre @ WithHealthCheckPeriod 1000000000 # ?post)) = [cfg]"
    using sample_New [OF o u] by simp
  from WithHealthCheckPeriod_positive_only [of 0 zero_options]
    WithHealthCheckPeriod_positive_only
      [of 1000000000 zero_options ?post sample_ext ?pre cfg]
    a b f s
  show ?thesis by simp
qed

section \<open>What a setter changes\<close>

text \<open>
  C10. Every setter option, on every record: when it returns an error the record is the one
  it was given; when it returns nil the record differs from the one it was given in the
  option's own field at most (host for \<open>WithHost\<close>, port for \<open>WithPort\<close>, and so on for the
  twelve setters of the record).
\<close>

theorem setters_frame:
  "(case WithHost e h opt of
      (Some err, opt') \<Rightarrow> opt' = opt | (None, opt') \<Rightarrow> opt' = opt\<lparr>host := host opt'\<rparr>)
 \<and> (case WithPort p opt of
      (Some err, opt') \<Rightarrow> opt' = opt | (None, opt') \<Rightarrow> opt' = opt\<lparr>port := port opt'\<rparr>)
 \<and> (case WithDatabase d opt of
      (Some err, opt') \<Rightarrow> opt' = opt | (None, opt') \<Rightarrow> opt' = opt\<lparr>database := database opt'\<rparr>)
 \<and> (case WithUser u opt of
      (Some err, opt') \<Rightarrow> opt' = opt | (None, opt') \<Rightarrow> opt' = opt\<lparr>user := user opt'\<rparr>)
 \<and> (case WithPass pw opt of
      (Some err, opt') \<Rightarrow> opt' = opt | (None, opt') \<Rightarrow> opt' = opt\<lparr>pass := pass opt'\<rparr>)
 \<and> (case WithSSLMode m opt of
      (Some err, opt') \<Rightarrow> opt' = opt | (None, opt') \<Rightarrow> opt' = opt\<lparr>sslmode := sslmode opt'\<rparr>)
 \<and> (case WithMaxConns n opt of
      (Some err, opt') \<Rightarrow> opt' = opt | (None, opt') \<Rightarrow> opt' = opt\<lparr>maxconns := maxconns opt'\<rparr>)
 \<and> (case WithMinConns n opt of
      (Some err, opt') \<Rightarrow> opt' = opt | (None, opt') \<Rightarrow> opt' = opt\<lparr>minconns := minconns opt'\<rparr>)
 \<and> (case WithMaxConnLifeTime t opt of
      (Some err, opt') \<Rightarrow> opt' = opt
    | (None, opt') \<Rightarrow> opt' = opt\<lparr>maxconnlifetime := maxconnlifetime opt'\<rparr>)
 \<and> (case WithMaxConnIdleTime t opt of
      (Some err, opt') \<Rightarrow> opt' = opt
    | (None, opt') \<Rightarrow> opt' = opt\<lparr>maxconnidletime := maxconnidletime opt'\<rparr>)
 \<and> (case WithHealthCheckPeriod t opt of
      (Some err, opt') \<Rightarrow> opt' = opt
    | (None, opt') \<Rightarrow> opt' = opt\<lparr>healthcheckperiod := healthcheckperiod opt'\<rparr>)
 \<and> (case WithMaxConnLifeTimeJitter t opt of
      (Some err, opt') \<Rightarrow> opt' = opt
    | (None, opt') \<Rightarrow> opt' = opt\<lparr>maxconnlifetimejitter := maxconnlifetimejitter opt'\<rparr>)"
proof (intro conjI)
  show "case WithHost e h opt of
      (Some err, opt') \<Rightarrow> opt' = opt | (None, opt') \<Rightarrow> opt' = opt\<lparr>host := host opt'\<rparr>"
    by (simp add: WithHost_def Let_def split: sum.splits)
  show "case WithPort p opt of
      (Some err, opt') \<Rightarrow> opt' = opt | (None, opt') \<Rightarrow> opt' = opt\<lparr>port := port opt'\<rparr>"
    by (simp add: WithPort_def)
  show "case WithDatabase d opt of
      (Some err, opt') \<Rightarrow> opt' = opt | (None, opt') \<Rightarrow> opt' = opt\<lparr>database := database opt'\<rparr>"
    by (simp add: WithDatabase_def)
  show "case WithUser u opt of
      (Some err, opt') \<Rightarrow> opt' = opt | (None, opt') \<Rightarrow> opt' = opt\<lparr>user := user opt'\<rparr>"
    by (simp add: WithUser_def)
  show "case WithPass pw opt of
      (Some err, opt') \<Rightarrow> opt' = opt | (None, opt') \<Rightarrow> opt' = opt\<lparr>pass := pass opt'\<rparr>"
    by (simp add: WithPass_def)
  show "case WithSSLMode m opt of
      (Some err, opt') \<Rightarrow> opt' = opt | (None, opt') \<Rightarrow> opt' = opt\<lparr>sslmode := sslmode opt'\<rparr>"
    by (simp add: WithSSLMode_def)
  show "case WithMaxConns n opt of
      (Some err, opt') \<Rightarrow> opt' = opt | (None, opt') \<Rightarrow> opt' = opt\<lparr>maxconns := maxconns opt'\<rparr>"
    by (simp add: WithMaxConns_def)
  show "case WithMinConns n opt of
      (Some err, opt') \<Rightarrow> opt' = opt | (None, opt') \<Rightarrow> opt' = opt\<lparr>minconns := minconns opt'\<rparr>"
    by (simp add: WithMinConns_def)
  show "case WithMaxConnLifeTime t opt of
      (Some err, opt') \<Rightarrow> opt' = opt
    | (None, opt') \<Rightarrow> opt' = opt\<lparr>maxconnlifetime := maxconnlifetime opt'\<rparr>"
    by (simp add: WithMaxConnLifeTime_def)
  show "case WithMaxConnIdleTime t opt of
      (Some err, opt') \<Rightarrow> opt' = opt
    | (None, opt') \<Rightarrow> opt' = opt\<lparr>maxconnidletime := maxconnidletime opt'\<rparr>"
    by (simp add: WithMaxConnIdleTime_def)
  show "case WithHealthCheckPeriod t opt of
      (Some err, opt') \<Rightarrow> opt' = opt
    | (None, opt') \<Rightarrow> opt' = opt\<lparr>healthcheckperiod := healthcheckperiod opt'\<rparr>"
    by (simp add: WithHealthCheckPeriod_def)
  show "case WithMaxConnLifeTimeJitter t opt of
      (Some err, opt') \<Rightarrow> opt' = opt
    | (None, opt') \<Rightarrow> opt' = opt\<lparr>maxconnlifetimejitter := maxconnlifetimejitter opt'\<rparr>"
    by (simp add: WithMaxConnLifeTimeJitter_def)
qed

theorem setters_frame_witness:
  "WithPort (- 1) zero_options = (Some (Errorf ''port cannot be less than zero''), zero_options)
   \<and> WithMaxConns 8 zero_options = (None, zero_options\<lparr>maxconns := Some 8\<rparr>)
   \<and> WithHealthCheckPeriod 0 zero_options
       = (Some (Errorf ''health check period cannot be less than or equal to zero''),
          zero_options)
   \<and> WithHost sample_ext ''10.0.0.7'' zero_options
       = (None, zero_options\<lparr>host := Some [10, 0, 0, 7]\<rparr>)"
  using setters_frame [where e = sample_ext and h = "''10.0.0.7''" and opt = zero_options
      and p = "- 1" and n = 8 and t = 0]
  by (simp add: WithPort_def WithMaxConns_def WithHealthCheckPeriod_def WithHost_def
      sample_ext_def zero_options_def word_sless_alt word_sle_eq)

end
